theory Spec2Isabelle
  imports Main "HOL-Library.Word"
begin

section \<open>Go values shared by the launcher\<close>

text \<open>
  A Go function either returns or panics. A panic is kept as a value of its own, so that
  an out-of-range slice or a nil dereference is a branch of the model.
\<close>

datatype 'a go = Return 'a | Panic string

text \<open>
  Go errors. \<open>Errorf msg\<close> is \<^verbatim>\<open>fmt.Errorf("msg")\<close>; \<open>Errorf_w prefix err\<close> is
  \<^verbatim>\<open>fmt.Errorf("prefix%w", err)\<close>, the only wrapping form the launcher uses.
  \<open>Error\<close> is the method \<^verbatim>\<open>Error()\<close>, the message.
\<close>

datatype error = Errorf string | Errorf_w string error

fun Error :: "error \<Rightarrow> string" where
  "Error (Errorf msg) = msg"
| "Error (Errorf_w prefix err) = prefix @ Error err"

text \<open>
  The slice expression \<^verbatim>\<open>s[:n]\<close> on a string: the first \<open>n\<close> bytes, and a run-time
  panic when \<open>n\<close> is negative or beyond the length.
\<close>

definition slice_to :: "string \<Rightarrow> int \<Rightarrow> string go" where
  "slice_to s n =
     (if 0 \<le> n \<and> n \<le> int (length s) then Return (take (nat n) s)
      else Panic ''slice bounds out of range'')"

text \<open>
  \<^verbatim>\<open>strings.Join\<close>: the reference point for a separator-joined string without a
  trailing separator.
\<close>

fun strings_Join :: "string list \<Rightarrow> string \<Rightarrow> string" where
  "strings_Join [] sep = []"
| "strings_Join [x] sep = x"
| "strings_Join (x # y # ys) sep = x @ sep @ strings_Join (y # ys) sep"

subsection \<open>The \<^verbatim>\<open>%x\<close> verb on a byte array\<close>

text \<open>
  \<^verbatim>\<open>sha1.Sum\<close> returns a \<^verbatim>\<open>[20]byte\<close>: an array whose length is part of its type.
\<close>

typedef byte20 = "{bs :: 8 word list. length bs = 20}"
  morphisms bytes_of Byte20
proof
  show "replicate 20 0 \<in> {bs :: 8 word list. length bs = 20}" by simp
qed

definition hex_digit :: "nat \<Rightarrow> char" where
  "hex_digit n = ''0123456789abcdef'' ! (n mod 16)"

definition hex_byte :: "8 word \<Rightarrow> string" where
  "hex_byte b = [hex_digit (unat b div 16), hex_digit (unat b mod 16)]"

text \<open>\<^verbatim>\<open>fmt.Sprintf("%x", hash)\<close>: two lowercase hexadecimal digits per byte, no separator.\<close>

definition Sprintf_x :: "byte20 \<Rightarrow> string" where
  "Sprintf_x hash = concat (map hex_byte (bytes_of hash))"

section \<open>template.go\<close>

record TemplateSpec =
  VideoId :: string
  UniqueName :: string
  VideoIdLabel :: string

text \<open>
  The parts of the cluster objects the launcher reads or writes: the name and the label map
  of the object metadata (a nil map is \<open>None\<close>) and, for a job, the succeeded count of its
  status (an \<^verbatim>\<open>int32\<close>). Every other field is carried in one opaque component.
\<close>

record Meta =
  Name :: string
  Labels :: "(string \<rightharpoonup> string) option"

record 'x Job = Meta +
  Status_Succeeded :: "32 word"
  Job_fields :: 'x

record 'x Service = Meta +
  Service_fields :: 'x

record 'x Ingress = Meta +
  Ingress_fields :: 'x

text \<open>
  A parsed \<^verbatim>\<open>*template.Template\<close> is what \<^verbatim>\<open>Execute\<close> does with it: the text written to
  the buffer, or an error.
\<close>

type_synonym Template = "TemplateSpec \<Rightarrow> error + string"

text \<open>
  Library functions the launcher calls: \<^verbatim>\<open>sha1.Sum\<close>, the YAML-or-JSON decoder at each of
  the three pointer types (a decoded pointer may be left nil: \<open>None\<close>), and the \<^verbatim>\<open>%#v\<close>
  rendering of a job.
\<close>

record 'x lib =
  sha1_Sum :: "string \<Rightarrow> byte20"
  Decode_Job :: "string \<Rightarrow> error + 'x Job option"
  Decode_Service :: "string \<Rightarrow> error + 'x Service option"
  Decode_Ingress :: "string \<Rightarrow> error + 'x Ingress option"
  GoString_Job :: "'x Job \<Rightarrow> string"

text \<open>
  The package-level \<^verbatim>\<open>VideoIdLabel\<close> and \<^verbatim>\<open>DefaultLabels\<close> are parameters of every
  function that reads them. \<^verbatim>\<open>DefaultLabels\<close> is a Go map; it is given as the list of its
  entries in the order in which a \<^verbatim>\<open>range\<close> loop visits them.
\<close>

definition GenTemplateSpec :: "'x lib \<Rightarrow> string \<Rightarrow> TemplateSpec \<Rightarrow> TemplateSpec go" where
  "GenTemplateSpec l videoIdLabel spec =
     (let hash = sha1_Sum l (VideoId spec);
          hashString = Sprintf_x hash
      in case slice_to hashString 8 of
           Panic p \<Rightarrow> Panic p
         | Return u \<Rightarrow> Return (spec\<lparr>UniqueName := u, VideoIdLabel := videoIdLabel\<rparr>))"

text \<open>
  The three constructors share one shape: derive the spec (through the pointer, so the
  caller sees the derived fields), execute the template, decode the text, then write the
  labels. The label writes are the assignments of the source in their order: an empty map
  when the decoded one is nil, every entry of \<^verbatim>\<open>DefaultLabels\<close>, then the video-id label.
  A nil decoded pointer makes the first read of \<^verbatim>\<open>.Labels\<close> panic.
\<close>

definition add_labels ::
  "(string \<times> string) list \<Rightarrow> string \<Rightarrow> TemplateSpec \<Rightarrow>
   (string \<rightharpoonup> string) option \<Rightarrow> (string \<rightharpoonup> string) option" where
  "add_labels defaultLabels videoIdLabel spec labels =
     (let m0 = (case labels of None \<Rightarrow> Map.empty | Some m \<Rightarrow> m);
          m1 = fold (\<lambda>(k, v) m. m(k \<mapsto> v)) defaultLabels m0
      in Some (m1(videoIdLabel \<mapsto> VideoId spec)))"

definition NewJobFromTemplate ::
  "'x lib \<Rightarrow> (string \<times> string) list \<Rightarrow> string \<Rightarrow> Template \<Rightarrow> TemplateSpec \<Rightarrow>
   (error + 'x Job) go \<times> TemplateSpec" where
  "NewJobFromTemplate l defaultLabels videoIdLabel tmpl spec0 =
     (case GenTemplateSpec l videoIdLabel spec0 of
        Panic p \<Rightarrow> (Panic p, spec0)
      | Return spec \<Rightarrow>
          (case tmpl spec of
             Inl err \<Rightarrow> (Return (Inl (Errorf_w ''error executing job template: '' err)), spec)
           | Inr buf \<Rightarrow>
               (case Decode_Job l buf of
                  Inl err \<Rightarrow> (Return (Inl (Errorf_w ''error parsing job YAML: '' err)), spec)
                | Inr None \<Rightarrow> (Panic ''invalid memory address or nil pointer dereference'', spec)
                | Inr (Some job) \<Rightarrow>
                    (Return (Inr (job\<lparr>Labels :=
                       add_labels defaultLabels videoIdLabel spec (Labels job)\<rparr>)), spec))))"

definition NewServiceFromTemplate ::
  "'x lib \<Rightarrow> (string \<times> string) list \<Rightarrow> string \<Rightarrow> Template \<Rightarrow> TemplateSpec \<Rightarrow>
   (error + 'x Service) go \<times> TemplateSpec" where
  "NewServiceFromTemplate l defaultLabels videoIdLabel tmpl spec0 =
     (case GenTemplateSpec l videoIdLabel spec0 of
        Panic p \<Rightarrow> (Panic p, spec0)
      | Return spec \<Rightarrow>
          (case tmpl spec of
             Inl err \<Rightarrow> (Return (Inl (Errorf_w ''error executing service template: '' err)), spec)
           | Inr buf \<Rightarrow>
               (case Decode_Service l buf of
                  Inl err \<Rightarrow> (Return (Inl (Errorf_w ''error parsing service YAML: '' err)), spec)
                | Inr None \<Rightarrow> (Panic ''invalid memory address or nil pointer dereference'', spec)
                | Inr (Some service) \<Rightarrow>
                    (Return (Inr (service\<lparr>Labels :=
                       add_labels defaultLabels videoIdLabel spec (Labels service)\<rparr>)), spec))))"

definition NewIngressFromTemplate ::
  "'x lib \<Rightarrow> (string \<times> string) list \<Rightarrow> string \<Rightarrow> Template \<Rightarrow> TemplateSpec \<Rightarrow>
   (error + 'x Ingress) go \<times> TemplateSpec" where
  "NewIngressFromTemplate l defaultLabels videoIdLabel tmpl spec0 =
     (case GenTemplateSpec l videoIdLabel spec0 of
        Panic p \<Rightarrow> (Panic p, spec0)
      | Return spec \<Rightarrow>
          (case tmpl spec of
             Inl err \<Rightarrow> (Return (Inl (Errorf_w ''error executing ingress template: '' err)), spec)
           | Inr buf \<Rightarrow>
               (case Decode_Ingress l buf of
                  Inl err \<Rightarrow> (Return (Inl (Errorf_w ''error parsing ingress YAML: '' err)), spec)
                | Inr None \<Rightarrow> (Panic ''invalid memory address or nil pointer dereference'', spec)
                | Inr (Some ingress) \<Rightarrow>
                    (Return (Inr (ingress\<lparr>Labels :=
                       add_labels defaultLabels videoIdLabel spec (Labels ingress)\<rparr>)), spec))))"

section \<open>service.go\<close>

text \<open>
  The cluster is seen through the calls the launcher issues on its three clients and the
  lines it logs. A client's answer may depend on every call issued before, so each client
  method takes the calls so far and its argument; nothing else is assumed about it.
\<close>

datatype 'x call =
    Call_JobCreate "'x Job"
  | Call_JobWatch string
  | Call_ServiceCreate "'x Service"
  | Call_ServiceList string
  | Call_ServiceDelete string
  | Call_IngressCreate "'x Ingress"
  | Call_IngressList string
  | Call_IngressDelete string

record 'x world =
  calls :: "'x call list"
  logs :: "string list"

text \<open>
  A watch event carries a \<^verbatim>\<open>runtime.Object\<close>: a job, or a value of another type, of which
  only the type name (the \<^verbatim>\<open>%T\<close> verb) is used. The result channel is read by position:
  \<open>Some event\<close> is a delivery, \<open>None\<close> a closed channel.
\<close>

datatype 'x Object = JobObject "'x Job" | OtherObject string

record 'x Event =
  EventType :: string
  Object :: "'x Object"

record 'x LauncherService =
  JobClient_Create :: "'x call list \<Rightarrow> 'x Job \<Rightarrow> error + 'x Job"
  JobClient_Watch :: "'x call list \<Rightarrow> string \<Rightarrow> error + (nat \<Rightarrow> 'x Event option)"
  ServiceClient_Create :: "'x call list \<Rightarrow> 'x Service \<Rightarrow> error + 'x Service"
  ServiceClient_List :: "'x call list \<Rightarrow> string \<Rightarrow> error + 'x Service list"
  ServiceClient_Delete :: "'x call list \<Rightarrow> string \<Rightarrow> error option"
  IngressClient_Create :: "'x call list \<Rightarrow> 'x Ingress \<Rightarrow> error + 'x Ingress"
  IngressClient_List :: "'x call list \<Rightarrow> string \<Rightarrow> error + 'x Ingress list"
  IngressClient_Delete :: "'x call list \<Rightarrow> string \<Rightarrow> error option"
  JobTemplate :: "Template option"
  ServiceTemplate :: "Template option"
  IngressTemplate :: "Template option"

text \<open>Issuing a call on a client, and \<^verbatim>\<open>log.Printf\<close>: each appends to its record.\<close>

definition issue :: "'x call \<Rightarrow> 'x world \<Rightarrow> 'x world" where
  "issue c w = w\<lparr>calls := calls w @ [c]\<rparr>"

definition log_Printf :: "string \<Rightarrow> 'x world \<Rightarrow> 'x world" where
  "log_Printf line w = w\<lparr>logs := logs w @ [line]\<rparr>"

subsection \<open>Launch\<close>

text \<open>
  Each \<^verbatim>\<open>launch*\<close> method reads its template from the service; \<^verbatim>\<open>Execute\<close> on a nil
  template pointer is a nil dereference. \<^verbatim>\<open>Launch\<close> never calls them with a nil template.
\<close>

definition launchJob ::
  "'x LauncherService \<Rightarrow> 'x lib \<Rightarrow> (string \<times> string) list \<Rightarrow> string \<Rightarrow>
   TemplateSpec \<Rightarrow> 'x world \<Rightarrow> (error + 'x Job) go \<times> TemplateSpec \<times> 'x world" where
  "launchJob s l defaultLabels videoIdLabel spec0 w =
     (case JobTemplate s of
        None \<Rightarrow> (Panic ''invalid memory address or nil pointer dereference'', spec0, w)
      | Some tmpl \<Rightarrow>
          (case NewJobFromTemplate l defaultLabels videoIdLabel tmpl spec0 of
             (Panic p, spec) \<Rightarrow> (Panic p, spec, w)
           | (Return (Inl err), spec) \<Rightarrow>
               (Return (Inl (Errorf_w ''error creating job from template: '' err)), spec, w)
           | (Return (Inr job), spec) \<Rightarrow>
               (case JobClient_Create s (calls w) job of
                  Inl err \<Rightarrow>
                    (Return (Inl (Errorf_w (''error creating job '' @ GoString_Job l job @ '': '') err)),
                     spec, issue (Call_JobCreate job) w)
                | Inr j \<Rightarrow> (Return (Inr j), spec, issue (Call_JobCreate job) w))))"

definition launchService ::
  "'x LauncherService \<Rightarrow> 'x lib \<Rightarrow> (string \<times> string) list \<Rightarrow> string \<Rightarrow>
   TemplateSpec \<Rightarrow> 'x world \<Rightarrow> (error + 'x Service) go \<times> TemplateSpec \<times> 'x world" where
  "launchService s l defaultLabels videoIdLabel spec0 w =
     (case ServiceTemplate s of
        None \<Rightarrow> (Panic ''invalid memory address or nil pointer dereference'', spec0, w)
      | Some tmpl \<Rightarrow>
          (case NewServiceFromTemplate l defaultLabels videoIdLabel tmpl spec0 of
             (Panic p, spec) \<Rightarrow> (Panic p, spec, w)
           | (Return (Inl err), spec) \<Rightarrow>
               (Return (Inl (Errorf_w ''error creating service from template: '' err)), spec, w)
           | (Return (Inr service), spec) \<Rightarrow>
               (case ServiceClient_Create s (calls w) service of
                  Inl err \<Rightarrow>
                    (Return (Inl (Errorf_w ''error creating service: '' err)),
                     spec, issue (Call_ServiceCreate service) w)
                | Inr service' \<Rightarrow>
                    (Return (Inr service'), spec, issue (Call_ServiceCreate service) w))))"

definition launchIngress ::
  "'x LauncherService \<Rightarrow> 'x lib \<Rightarrow> (string \<times> string) list \<Rightarrow> string \<Rightarrow>
   TemplateSpec \<Rightarrow> 'x world \<Rightarrow> (error + 'x Ingress) go \<times> TemplateSpec \<times> 'x world" where
  "launchIngress s l defaultLabels videoIdLabel spec0 w =
     (case IngressTemplate s of
        None \<Rightarrow> (Panic ''invalid memory address or nil pointer dereference'', spec0, w)
      | Some tmpl \<Rightarrow>
          (case NewIngressFromTemplate l defaultLabels videoIdLabel tmpl spec0 of
             (Panic p, spec) \<Rightarrow> (Panic p, spec, w)
           | (Return (Inl err), spec) \<Rightarrow>
               (Return (Inl (Errorf_w ''error creating ingress from template: '' err)), spec, w)
           | (Return (Inr ingress), spec) \<Rightarrow>
               (case IngressClient_Create s (calls w) ingress of
                  Inl err \<Rightarrow>
                    (Return (Inl (Errorf_w ''error creating ingress: '' err)),
                     spec, issue (Call_IngressCreate ingress) w)
                | Inr ingress' \<Rightarrow>
                    (Return (Inr ingress'), spec, issue (Call_IngressCreate ingress) w))))"

text \<open>
  The three guarded blocks of \<^verbatim>\<open>Launch\<close>. Each yields the error \<^verbatim>\<open>Launch\<close> returns at once
  (\<open>Return (Some err)\<close>), or \<open>Return None\<close> when control falls through to the next block.
\<close>

definition Launch_job ::
  "'x LauncherService \<Rightarrow> 'x lib \<Rightarrow> (string \<times> string) list \<Rightarrow> string \<Rightarrow>
   TemplateSpec \<Rightarrow> 'x world \<Rightarrow> error option go \<times> TemplateSpec \<times> 'x world" where
  "Launch_job s l defaultLabels videoIdLabel spec w =
     (if JobTemplate s \<noteq> None then
        (case launchJob s l defaultLabels videoIdLabel spec w of
           (Panic p, spec', w') \<Rightarrow> (Panic p, spec', w')
         | (Return (Inl err), spec', w') \<Rightarrow>
             (Return (Some (Errorf_w ''error creating job: '' err)), spec', w')
         | (Return (Inr _), spec', w') \<Rightarrow> (Return None, spec', w'))
      else (Return None, spec, w))"

definition Launch_service ::
  "'x LauncherService \<Rightarrow> 'x lib \<Rightarrow> (string \<times> string) list \<Rightarrow> string \<Rightarrow>
   TemplateSpec \<Rightarrow> 'x world \<Rightarrow> error option go \<times> TemplateSpec \<times> 'x world" where
  "Launch_service s l defaultLabels videoIdLabel spec w =
     (if ServiceTemplate s \<noteq> None then
        (case launchService s l defaultLabels videoIdLabel spec w of
           (Panic p, spec', w') \<Rightarrow> (Panic p, spec', w')
         | (Return (Inl err), spec', w') \<Rightarrow>
             (Return (Some (Errorf_w ''error creating service: '' err)), spec', w')
         | (Return (Inr _), spec', w') \<Rightarrow> (Return None, spec', w'))
      else (Return None, spec, w))"

definition Launch_ingress ::
  "'x LauncherService \<Rightarrow> 'x lib \<Rightarrow> (string \<times> string) list \<Rightarrow> string \<Rightarrow>
   TemplateSpec \<Rightarrow> 'x world \<Rightarrow> error option go \<times> TemplateSpec \<times> 'x world" where
  "Launch_ingress s l defaultLabels videoIdLabel spec w =
     (if IngressTemplate s \<noteq> None then
        (case launchIngress s l defaultLabels videoIdLabel spec w of
           (Panic p, spec', w') \<Rightarrow> (Panic p, spec', w')
         | (Return (Inl err), spec', w') \<Rightarrow>
             (Return (Some (Errorf_w ''error creating ingress: '' err)), spec', w')
         | (Return (Inr _), spec', w') \<Rightarrow> (Return None, spec', w'))
      else (Return None, spec, w))"

definition Launch ::
  "'x LauncherService \<Rightarrow> 'x lib \<Rightarrow> (string \<times> string) list \<Rightarrow> string \<Rightarrow>
   string \<Rightarrow> 'x world \<Rightarrow> error option go \<times> 'x world" where
  "Launch s l defaultLabels videoIdLabel videoId w =
     (if videoId = [] then (Return (Some (Errorf ''video ID cannot be empty'')), w)
      else
        (let spec = \<lparr>VideoId = videoId, UniqueName = [], VideoIdLabel = []\<rparr>
         in case Launch_job s l defaultLabels videoIdLabel spec w of
              (Return None, spec1, w1) \<Rightarrow>
                (case Launch_service s l defaultLabels videoIdLabel spec1 w1 of
                   (Return None, spec2, w2) \<Rightarrow>
                     (case Launch_ingress s l defaultLabels videoIdLabel spec2 w2 of
                        (r, spec3, w3) \<Rightarrow> (r, w3))
                 | (r, spec2, w2) \<Rightarrow> (r, w2))
            | (r, spec1, w1) \<Rightarrow> (r, w1)))"

subsection \<open>CleanupWatcher\<close>

text \<open>
  The selector of the watch: one \<^verbatim>\<open>"%s=%s,"\<close> per default label, then the last byte cut
  off by \<^verbatim>\<open>labelSelector[:len(labelSelector)-1]\<close>.
\<close>

definition build_labelSelector :: "(string \<times> string) list \<Rightarrow> string go" where
  "build_labelSelector defaultLabels =
     (let labelSelector = fold (\<lambda>(k, v) sel. sel @ k @ ''='' @ v @ '','') defaultLabels []
      in slice_to labelSelector (int (length labelSelector) - 1))"

text \<open>Reading a Go map: a nil map and a missing key both give the empty string.\<close>

definition label_value :: "(string \<rightharpoonup> string) option \<Rightarrow> string \<Rightarrow> string" where
  "label_value labels k =
     (case labels of
        None \<Rightarrow> []
      | Some m \<Rightarrow> (case m k of None \<Rightarrow> [] | Some v \<Rightarrow> v))"

text \<open>
  The two inner loops over the listed items: one delete call per item, by name, and a log
  line when the call returns an error. Nothing leaves the loop early.
\<close>

definition delete_services ::
  "'x LauncherService \<Rightarrow> 'x Service list \<Rightarrow> 'x world \<Rightarrow> 'x world" where
  "delete_services s items w0 =
     fold (\<lambda>svc w.
            (case ServiceClient_Delete s (calls w) (Name svc) of
               Some err \<Rightarrow>
                 log_Printf (''error deleting service: '' @ Error err)
                   (issue (Call_ServiceDelete (Name svc)) w)
             | None \<Rightarrow> issue (Call_ServiceDelete (Name svc)) w))
          items w0"

definition delete_ingresses ::
  "'x LauncherService \<Rightarrow> 'x Ingress list \<Rightarrow> 'x world \<Rightarrow> 'x world" where
  "delete_ingresses s items w0 =
     fold (\<lambda>ing w.
            (case IngressClient_Delete s (calls w) (Name ing) of
               Some err \<Rightarrow>
                 log_Printf (''error deleting ingress: '' @ Error err)
                   (issue (Call_IngressDelete (Name ing)) w)
             | None \<Rightarrow> issue (Call_IngressDelete (Name ing)) w))
          items w0"

text \<open>
  The two halves of the cleanup of one succeeded job: the list call, then the inner loop
  when it succeeded and a log line when it did not.
\<close>

definition cleanup_services :: "'x LauncherService \<Rightarrow> string \<Rightarrow> 'x world \<Rightarrow> 'x world" where
  "cleanup_services s videoLabelSelector w =
     (case ServiceClient_List s (calls w) videoLabelSelector of
        Inr items \<Rightarrow> delete_services s items (issue (Call_ServiceList videoLabelSelector) w)
      | Inl err \<Rightarrow>
          log_Printf (''error listing services: '' @ Error err)
            (issue (Call_ServiceList videoLabelSelector) w))"

definition cleanup_ingresses :: "'x LauncherService \<Rightarrow> string \<Rightarrow> 'x world \<Rightarrow> 'x world" where
  "cleanup_ingresses s videoLabelSelector w =
     (case IngressClient_List s (calls w) videoLabelSelector of
        Inr items \<Rightarrow> delete_ingresses s items (issue (Call_IngressList videoLabelSelector) w)
      | Inl err \<Rightarrow>
          log_Printf (''error listing ingress: '' @ Error err)
            (issue (Call_IngressList videoLabelSelector) w))"

text \<open>The body of the loop over the result channel, for one received event.\<close>

definition watch_body ::
  "'x LauncherService \<Rightarrow> string \<Rightarrow> string \<Rightarrow> 'x Event \<Rightarrow> 'x world \<Rightarrow> 'x world" where
  "watch_body s labelSelector videoIdLabel event w =
     (case Object event of
        OtherObject tname \<Rightarrow>
          log_Printf (''CleanupWatcher got unexpected object type: '' @ tname) w
      | JobObject job \<Rightarrow>
          (if 0 < sint (Status_Succeeded job) then
             (let videoLabelSelector =
                    labelSelector @ '','' @ videoIdLabel @ ''='' @
                    label_value (Labels job) videoIdLabel;
                  w1 = log_Printf (''job '' @ Name job @
                         '' has completed, deleting associated service and ingress'') w;
                  w2 = cleanup_services s videoLabelSelector w1
              in cleanup_ingresses s videoLabelSelector w2)
           else w))"

text \<open>
  \<^verbatim>\<open>for event := range watch.ResultChan()\<close>: the loop ends when the channel is closed and
  not before; on a channel that is never closed it does not return (\<open>None\<close>).
\<close>

partial_function (option) watch_loop ::
  "'x LauncherService \<Rightarrow> string \<Rightarrow> string \<Rightarrow> (nat \<Rightarrow> 'x Event option) \<Rightarrow> nat \<Rightarrow>
   'x world \<Rightarrow> 'x world option" where
  "watch_loop s labelSelector videoIdLabel ch i w =
     (case ch i of
        None \<Rightarrow> Some w
      | Some event \<Rightarrow>
          watch_loop s labelSelector videoIdLabel ch (Suc i)
            (watch_body s labelSelector videoIdLabel event w))"

definition CleanupWatcher ::
  "'x LauncherService \<Rightarrow> (string \<times> string) list \<Rightarrow> string \<Rightarrow> 'x world \<Rightarrow>
   (error option go \<times> 'x world) option" where
  "CleanupWatcher s defaultLabels videoIdLabel w =
     (case build_labelSelector defaultLabels of
        Panic p \<Rightarrow> Some (Panic p, w)
      | Return labelSelector \<Rightarrow>
          (case JobClient_Watch s (calls w) labelSelector of
             Inl err \<Rightarrow>
               Some (Return (Some (Errorf_w ''error watching jobs: '' err)),
                     issue (Call_JobWatch labelSelector) w)
           | Inr ch \<Rightarrow>
               (case watch_loop s labelSelector videoIdLabel ch 0
                       (issue (Call_JobWatch labelSelector) w) of
                  None \<Rightarrow> None
                | Some w' \<Rightarrow> Some (Return None, w'))))"

section \<open>util.go and main.go\<close>


text \<open>
  \<^verbatim>\<open>log.Fatalf\<close> logs and exits the process with status 1; an unrecovered panic in a
  goroutine crashes it. \<open>Serving\<close> is the process going on with whatever else it runs.
\<close>

datatype 'a process = Fatalf string | Crashed string | Serving 'a





text \<open>
  The goroutine \<^verbatim>\<open>main\<close> starts for the watcher: \<^verbatim>\<open>log.Fatalf\<close> when \<^verbatim>\<open>CleanupWatcher\<close>
  returns an error, and nothing at all when it returns nil: the goroutine ends and the
  process goes on serving. \<open>None\<close> is the watcher still running.
\<close>

definition main_watcher ::
  "'x LauncherService \<Rightarrow> (string \<times> string) list \<Rightarrow> string \<Rightarrow> 'x world \<Rightarrow>
   'x world process option" where
  "main_watcher launcherService defaultLabels videoIdLabel w =
     (case CleanupWatcher launcherService defaultLabels videoIdLabel w of
        None \<Rightarrow> None
      | Some (Panic p, w') \<Rightarrow> Some (Crashed p)
      | Some (Return (Some err), w') \<Rightarrow>
          Some (Fatalf (''error watching for cleanup events: '' @ Error err))
      | Some (Return None, w') \<Rightarrow> Some (Serving w'))"

section \<open>Vocabulary of the properties\<close>

text \<open>
  What it means for a rendered object to carry the labels: the label map exists, the
  video-id label holds the requested identifier, every default label other than the
  video-id key holds its default value, and a map that had to be initialised holds nothing
  else.
\<close>

definition carries_labels ::
  "(string \<times> string) list \<Rightarrow> string \<Rightarrow> string \<Rightarrow> (string \<rightharpoonup> string) option \<Rightarrow>
   (string \<rightharpoonup> string) option \<Rightarrow> bool" where
  "carries_labels defaultLabels videoIdLabel videoId parsed labels =
     (case labels of
        None \<Rightarrow> False
      | Some m \<Rightarrow>
          m videoIdLabel = Some videoId \<and>
          (\<forall>(k, v) \<in> set defaultLabels. k = videoIdLabel \<or> m k = Some v) \<and>
          (parsed = None \<longrightarrow> dom m = insert videoIdLabel (fst ` set defaultLabels)))"





subsection \<open>A concrete launcher\<close>

text \<open>
  Concrete values on which the properties are evaluated. The library: a hash of twenty
  bytes \<open>0xab\<close> (standing in for SHA-1) and decoders that accept the text
  \<^verbatim>\<open>job-abababab\<close> only, the decoded job already carrying a video-id label of its own.
  The templates: one that writes the unique name, one whose execution fails, one whose
  text does not decode. The cluster: job and ingress creation succeed, service creation
  is refused; two services are listed, of which the first is already gone when it is
  deleted; listing ingresses is refused; the watch delivers a status object, a running
  job and a succeeded job and is then closed.
\<close>

definition demo_template :: Template where
  "demo_template spec = Inr (''job-'' @ UniqueName spec)"

definition demo_failing_template :: Template where
  "demo_failing_template spec = Inl (Errorf ''can't evaluate field Missing in type *main.TemplateSpec'')"

definition demo_lib :: "unit lib" where
  "demo_lib =
     \<lparr>sha1_Sum = (\<lambda>videoId. Byte20 (replicate 20 171)),
      Decode_Job = (\<lambda>buf.
        if buf = ''job-abababab''
        then Inr (Some \<lparr>Name = buf, Labels = Some [''video-id'' \<mapsto> ''spoofed''],
                        Status_Succeeded = 0, Job_fields = ()\<rparr>)
        else Inl (Errorf ''EOF'')),
      Decode_Service = (\<lambda>buf.
        if buf = ''job-abababab''
        then Inr (Some \<lparr>Name = buf, Labels = None, Service_fields = ()\<rparr>)
        else Inl (Errorf ''EOF'')),
      Decode_Ingress = (\<lambda>buf.
        if buf = ''job-abababab''
        then Inr (Some \<lparr>Name = buf, Labels = None, Ingress_fields = ()\<rparr>)
        else Inl (Errorf ''EOF'')),
      GoString_Job = (\<lambda>job. ''&v1.Job{}'')\<rparr>"

definition demo_spec :: TemplateSpec where
  "demo_spec = \<lparr>VideoId = ''abc123xyz89'', UniqueName = [], VideoIdLabel = []\<rparr>"

definition demo_running_job :: "unit Job" where
  "demo_running_job =
     \<lparr>Name = ''job-abababab'',
      Labels = Some [''app'' \<mapsto> ''launcher'', ''video-id'' \<mapsto> ''abc123xyz89''],
      Status_Succeeded = 0, Job_fields = ()\<rparr>"

definition demo_succeeded_job :: "unit Job" where
  "demo_succeeded_job = demo_running_job\<lparr>Status_Succeeded := 1\<rparr>"

definition demo_event_status :: "unit Event" where
  "demo_event_status = \<lparr>EventType = ''ERROR'', Object = OtherObject ''*v1.Status''\<rparr>"

definition demo_event_running :: "unit Event" where
  "demo_event_running = \<lparr>EventType = ''MODIFIED'', Object = JobObject demo_running_job\<rparr>"

definition demo_event_succeeded :: "unit Event" where
  "demo_event_succeeded = \<lparr>EventType = ''MODIFIED'', Object = JobObject demo_succeeded_job\<rparr>"

definition demo_events :: "nat \<Rightarrow> unit Event option" where
  "demo_events i =
     (if i < 3 then Some ([demo_event_status, demo_event_running, demo_event_succeeded] ! i)
      else None)"

definition demo_service :: "unit LauncherService" where
  "demo_service =
     \<lparr>JobClient_Create = (\<lambda>cs job. Inr job),
      JobClient_Watch = (\<lambda>cs sel. Inr demo_events),
      ServiceClient_Create = (\<lambda>cs service. Inl (Errorf ''services is forbidden'')),
      ServiceClient_List = (\<lambda>cs sel.
        Inr [\<lparr>Name = ''svc-a'', Labels = None, Service_fields = ()\<rparr>,
             \<lparr>Name = ''svc-b'', Labels = None, Service_fields = ()\<rparr>]),
      ServiceClient_Delete = (\<lambda>cs name.
        if name = ''svc-a'' then Some (Errorf ''services svc-a not found'') else None),
      IngressClient_Create = (\<lambda>cs ingress. Inr ingress),
      IngressClient_List = (\<lambda>cs sel. Inl (Errorf ''ingresses is forbidden'')),
      IngressClient_Delete = (\<lambda>cs name. None),
      JobTemplate = Some demo_template,
      ServiceTemplate = Some demo_template,
      IngressTemplate = Some demo_template\<rparr>"

definition demo_world :: "unit world" where
  "demo_world = \<lparr>calls = [], logs = []\<rparr>"

definition demo_labels :: "(string \<times> string) list" where
  "demo_labels = [(''app'', ''launcher''), (''tier'', ''live'')]"

definition demo_closed_watch :: "unit LauncherService" where
  "demo_closed_watch = demo_service\<lparr>JobClient_Watch := (\<lambda>cs sel. Inr (\<lambda>i. None))\<rparr>"

definition demo_derived :: TemplateSpec where
  "demo_derived =
     \<lparr>VideoId = ''abc123xyz89'', UniqueName = ''abababab'', VideoIdLabel = ''video-id''\<rparr>"

definition demo_bad_yaml_template :: Template where
  "demo_bad_yaml_template spec = Inr ''bad''"

section \<open>Properties\<close>

subsection \<open>Hexadecimal rendering\<close>

lemma hex_digit_lower: "hex_digit n \<in> set ''0123456789abcdef''"
proof -
  have "n mod 16 < length ''0123456789abcdef''" by simp
  then show ?thesis unfolding hex_digit_def by (rule nth_mem)
qed

lemma length_hex_byte: "length (hex_byte b) = 2"
  by (simp add: hex_byte_def)

lemma set_hex_byte: "set (hex_byte b) \<subseteq> set ''0123456789abcdef''"
  using hex_digit_lower [of "unat b div 16"] hex_digit_lower [of "unat b mod 16"]
  by (simp add: hex_byte_def)

lemma length_concat_hex: "length (concat (map hex_byte bs)) = 2 * length bs"
  by (induction bs) (simp_all add: length_hex_byte)

lemma set_concat_hex: "set (concat (map hex_byte bs)) \<subseteq> set ''0123456789abcdef''"
  using set_hex_byte by (induction bs) auto

lemma length_bytes_of: "length (bytes_of h) = 20"
  using bytes_of [of h] by simp

lemma length_Sprintf_x: "length (Sprintf_x h) = 40"
  by (simp add: Sprintf_x_def length_concat_hex length_bytes_of)

lemma set_Sprintf_x: "set (Sprintf_x h) \<subseteq> set ''0123456789abcdef''"
  unfolding Sprintf_x_def by (rule set_concat_hex)

lemma GenTemplateSpec_Return:
  "GenTemplateSpec l vl spec =
     Return (spec\<lparr>UniqueName := take 8 (Sprintf_x (sha1_Sum l (VideoId spec))),
                  VideoIdLabel := vl\<rparr>)"
  by (simp add: GenTemplateSpec_def slice_to_def length_Sprintf_x)

subsection \<open>Evaluation on the concrete launcher\<close>

lemma demo_hash:
  "Sprintf_x (sha1_Sum demo_lib videoId) = ''abababababababababababababababababababab''"
proof -
  have "bytes_of (Byte20 (replicate 20 171)) = replicate 20 171"
    by (simp add: Byte20_inverse)
  moreover have "hex_byte 171 = ''ab''"
    by (simp add: hex_byte_def hex_digit_def)
  moreover have "concat (replicate 20 ''ab'') = ''abababababababababababababababababababab''"
    by (simp add: numeral_eq_Suc)
  ultimately show ?thesis by (simp add: Sprintf_x_def map_replicate demo_lib_def)
qed

lemma demo_GenTemplateSpec:
  "GenTemplateSpec demo_lib ''video-id''
     \<lparr>VideoId = ''abc123xyz89'', UniqueName = u, VideoIdLabel = v\<rparr> = Return demo_derived"
  by (simp add: GenTemplateSpec_Return demo_hash demo_derived_def)

lemma demo_GenTemplateSpec_spec:
  "GenTemplateSpec demo_lib ''video-id'' demo_spec = Return demo_derived"
  using demo_GenTemplateSpec [of "[]" "[]"] by (simp add: demo_spec_def)

lemma demo_decode:
  "Decode_Job demo_lib ''job-abababab'' =
     Inr (Some \<lparr>Name = ''job-abababab'', Labels = Some [''video-id'' \<mapsto> ''spoofed''],
                 Status_Succeeded = 0, Job_fields = ()\<rparr>)"
  "Decode_Service demo_lib ''job-abababab'' =
     Inr (Some \<lparr>Name = ''job-abababab'', Labels = None, Service_fields = ()\<rparr>)"
  "Decode_Ingress demo_lib ''job-abababab'' =
     Inr (Some \<lparr>Name = ''job-abababab'', Labels = None, Ingress_fields = ()\<rparr>)"
  "Decode_Job demo_lib ''bad'' = Inl (Errorf ''EOF'')"
  "Decode_Service demo_lib ''bad'' = Inl (Errorf ''EOF'')"
  "Decode_Ingress demo_lib ''bad'' = Inl (Errorf ''EOF'')"
  by (simp_all add: demo_lib_def)

lemma demo_template_derived: "demo_template demo_derived = Inr ''job-abababab''"
  by (simp add: demo_template_def demo_derived_def)

lemma demo_NewJob:
  "NewJobFromTemplate demo_lib dl ''video-id'' demo_template
     \<lparr>VideoId = ''abc123xyz89'', UniqueName = u, VideoIdLabel = v\<rparr> =
   (Return (Inr \<lparr>Name = ''job-abababab'',
             Labels = add_labels dl ''video-id'' demo_derived (Some [''video-id'' \<mapsto> ''spoofed'']),
             Status_Succeeded = 0, Job_fields = ()\<rparr>), demo_derived)"
  using demo_template_derived
  by (simp add: NewJobFromTemplate_def demo_GenTemplateSpec demo_decode demo_derived_def)

lemma demo_NewService:
  "NewServiceFromTemplate demo_lib dl ''video-id'' demo_template
     \<lparr>VideoId = ''abc123xyz89'', UniqueName = u, VideoIdLabel = v\<rparr> =
   (Return (Inr \<lparr>Name = ''job-abababab'',
             Labels = add_labels dl ''video-id'' demo_derived None,
             Service_fields = ()\<rparr>), demo_derived)"
  using demo_template_derived
  by (simp add: NewServiceFromTemplate_def demo_GenTemplateSpec demo_decode demo_derived_def)

lemma demo_NewIngress:
  "NewIngressFromTemplate demo_lib dl ''video-id'' demo_template
     \<lparr>VideoId = ''abc123xyz89'', UniqueName = u, VideoIdLabel = v\<rparr> =
   (Return (Inr \<lparr>Name = ''job-abababab'',
             Labels = add_labels dl ''video-id'' demo_derived None,
             Ingress_fields = ()\<rparr>), demo_derived)"
  using demo_template_derived
  by (simp add: NewIngressFromTemplate_def demo_GenTemplateSpec demo_decode demo_derived_def)

subsection \<open>The unique name\<close>

text \<open>
  Claim C7. \<^verbatim>\<open>GenTemplateSpec\<close> always returns; the unique name it stores is the first eight
  characters of the hexadecimal rendering of the hash of the video id, is eight characters
  long, consists of lowercase hexadecimal digits, and does not depend on what the derived
  fields of the spec held before.
\<close>

theorem GenTemplateSpec_uniqueName:
  "\<exists>spec'. GenTemplateSpec l vl spec = Return spec' \<and>
      UniqueName spec' = take 8 (Sprintf_x (sha1_Sum l (VideoId spec))) \<and>
      length (UniqueName spec') = 8 \<and>
      set (UniqueName spec') \<subseteq> set ''0123456789abcdef'' \<and>
      (\<forall>u v. GenTemplateSpec l vl (spec\<lparr>UniqueName := u, VideoIdLabel := v\<rparr>) = Return spec')"
proof -
  let ?h = "Sprintf_x (sha1_Sum l (VideoId spec))"
  have len: "length (take 8 ?h) = 8" by (simp add: length_Sprintf_x)
  have "set (take 8 ?h) \<subseteq> set ?h" by (rule set_take_subset)
  then have hex: "set (take 8 ?h) \<subseteq> set ''0123456789abcdef''"
    using set_Sprintf_x [of "sha1_Sum l (VideoId spec)"] by (rule subset_trans)
  show ?thesis
    using len hex by (simp add: GenTemplateSpec_Return)
qed

theorem GenTemplateSpec_uniqueName_witness:
  "\<exists>spec'. GenTemplateSpec demo_lib ''video-id'' demo_spec = Return spec' \<and>
      UniqueName spec' = ''abababab'' \<and>
      length (UniqueName spec') = 8 \<and>
      set (UniqueName spec') \<subseteq> set ''0123456789abcdef'' \<and>
      GenTemplateSpec demo_lib ''video-id''
        (demo_spec\<lparr>UniqueName := ''stale'', VideoIdLabel := ''old''\<rparr>) = Return spec'"
proof -
  obtain spec' where
    a: "GenTemplateSpec demo_lib ''video-id'' demo_spec = Return spec'" and
    b: "length (UniqueName spec') = 8" "set (UniqueName spec') \<subseteq> set ''0123456789abcdef''" and
    c: "\<forall>u v. GenTemplateSpec demo_lib ''video-id''
          (demo_spec\<lparr>UniqueName := u, VideoIdLabel := v\<rparr>) = Return spec'"
    using GenTemplateSpec_uniqueName [of demo_lib "''video-id''" demo_spec] by blast
  have "spec' = demo_derived" using a demo_GenTemplateSpec_spec by simp
  then have "UniqueName spec' = ''abababab''" by (simp add: demo_derived_def)
  then show ?thesis using a b c by blast
qed

subsection \<open>Labels of a rendered object\<close>

lemma fold_label_writes:
  "fold (\<lambda>(k, v) m. m(k \<mapsto> v)) dl m = m ++ map_of (rev dl)"
proof (induction dl arbitrary: m)
  case Nil
  show ?case by simp
next
  case (Cons kv dl)
  obtain k v where kv: "kv = (k, v)" by (cases kv)
  have "fold (\<lambda>(k, v) m. m(k \<mapsto> v)) (kv # dl) m =
        fold (\<lambda>(k, v) m. m(k \<mapsto> v)) dl (m(k \<mapsto> v))"
    by (simp only: kv fold_simps prod.case)
  also have "\<dots> = (m(k \<mapsto> v)) ++ map_of (rev dl)"
    by (rule Cons.IH)
  also have "\<dots> = m ++ map_of (rev (kv # dl))"
    by (simp add: kv map_add_def fun_eq_iff split: option.splits)
  finally show ?case .
qed

lemma map_of_rev_distinct:
  "distinct (map fst dl) \<Longrightarrow> map_of (rev dl) = map_of dl"
  by (rule map_of_inject_set [THEN iffD2]) (simp_all add: distinct_rev rev_map [symmetric])

lemma add_labels_Some:
  "add_labels dl vl spec labels =
     Some (((case labels of None \<Rightarrow> Map.empty | Some m \<Rightarrow> m) ++ map_of (rev dl))(vl \<mapsto> VideoId spec))"
  by (simp add: add_labels_def fold_label_writes)

lemma GenTemplateSpec_VideoId:
  "GenTemplateSpec l vl spec0 = Return spec \<Longrightarrow> VideoId spec = VideoId spec0"
  by (auto simp add: GenTemplateSpec_Return)

lemma add_labels_carries:
  assumes "distinct (map fst dl)"
  shows "carries_labels dl vl (VideoId spec) parsed (add_labels dl vl spec parsed)"
proof -
  let ?m = "((case parsed of None \<Rightarrow> Map.empty | Some m \<Rightarrow> m) ++ map_of (rev dl))
              (vl \<mapsto> VideoId spec)"
  have "?m k = Some v" if kv: "(k, v) \<in> set dl" and ne: "k \<noteq> vl" for k v
  proof -
    have "map_of dl k = Some v" using assms kv by (rule map_of_is_SomeI)
    then show ?thesis using ne assms by (simp add: map_of_rev_distinct map_add_def)
  qed
  then have d: "\<forall>(k, v) \<in> set dl. k = vl \<or> ?m k = Some v"
    by blast
  have n: "parsed = None \<longrightarrow>
             dom (((case parsed of None \<Rightarrow> Map.empty | Some m \<Rightarrow> m) ++ map_of (rev dl))
                (vl \<mapsto> VideoId spec)) = insert vl (fst ` set dl)"
    by (auto simp add: dom_map_of_conv_image_fst)
  show ?thesis
    unfolding carries_labels_def add_labels_Some option.case
    using d n by simp
qed

text \<open>
  Claim C1. Whenever the template executes and its text decodes to an object, each of the
  three constructors returns that object with a label map in which the video-id label is
  the requested identifier (whatever the template or the default labels put under that
  key) and every other default label has its default value; when the decoded object had
  no label map, the map is created and holds these labels only.
\<close>

theorem render_carries_labels:
  assumes dl: "distinct (map fst dl)"
    and gen: "GenTemplateSpec l vl spec0 = Return spec"
    and exe: "tmpl spec = Inr buf"
  shows "(\<forall>parsed. Decode_Job l buf = Inr (Some parsed) \<longrightarrow>
            (\<exists>job. NewJobFromTemplate l dl vl tmpl spec0 = (Return (Inr job), spec) \<and>
               carries_labels dl vl (VideoId spec0) (Labels parsed) (Labels job))) \<and>
         (\<forall>parsed. Decode_Service l buf = Inr (Some parsed) \<longrightarrow>
            (\<exists>service. NewServiceFromTemplate l dl vl tmpl spec0 = (Return (Inr service), spec) \<and>
               carries_labels dl vl (VideoId spec0) (Labels parsed) (Labels service))) \<and>
         (\<forall>parsed. Decode_Ingress l buf = Inr (Some parsed) \<longrightarrow>
            (\<exists>ingress. NewIngressFromTemplate l dl vl tmpl spec0 = (Return (Inr ingress), spec) \<and>
               carries_labels dl vl (VideoId spec0) (Labels parsed) (Labels ingress)))"
proof -
  have c: "carries_labels dl vl (VideoId spec0) parsed (add_labels dl vl spec parsed)" for parsed
    using add_labels_carries [OF dl, of vl spec parsed] GenTemplateSpec_VideoId [OF gen] by simp
  have j: "\<exists>job. NewJobFromTemplate l dl vl tmpl spec0 = (Return (Inr job), spec) \<and>
               carries_labels dl vl (VideoId spec0) (Labels parsed) (Labels job)"
    if "Decode_Job l buf = Inr (Some parsed)" for parsed
    using gen exe that c [of "Labels parsed"] by (simp add: NewJobFromTemplate_def)
  have s: "\<exists>service. NewServiceFromTemplate l dl vl tmpl spec0 = (Return (Inr service), spec) \<and>
               carries_labels dl vl (VideoId spec0) (Labels parsed) (Labels service)"
    if "Decode_Service l buf = Inr (Some parsed)" for parsed
    using gen exe that c [of "Labels parsed"] by (simp add: NewServiceFromTemplate_def)
  have i: "\<exists>ingress. NewIngressFromTemplate l dl vl tmpl spec0 = (Return (Inr ingress), spec) \<and>
               carries_labels dl vl (VideoId spec0) (Labels parsed) (Labels ingress)"
    if "Decode_Ingress l buf = Inr (Some parsed)" for parsed
    using gen exe that c [of "Labels parsed"] by (simp add: NewIngressFromTemplate_def)
  from j s i show ?thesis by blast
qed

theorem render_carries_labels_witness:
  "distinct (map fst ((''video-id'', ''none'') # demo_labels)) \<and>
   GenTemplateSpec demo_lib ''video-id'' demo_spec = Return demo_derived \<and>
   demo_template demo_derived = Inr ''job-abababab'' \<and>
   (\<exists>parsed job.
      Decode_Job demo_lib ''job-abababab'' = Inr (Some parsed) \<and>
      Labels parsed = Some [''video-id'' \<mapsto> ''spoofed''] \<and>
      NewJobFromTemplate demo_lib ((''video-id'', ''none'') # demo_labels) ''video-id''
        demo_template demo_spec = (Return (Inr job), demo_derived) \<and>
      label_value (Labels job) ''video-id'' = ''abc123xyz89'' \<and>
      label_value (Labels job) ''app'' = ''launcher'' \<and>
      label_value (Labels job) ''tier'' = ''live'') \<and>
   (\<exists>parsed service m.
      Decode_Service demo_lib ''job-abababab'' = Inr (Some parsed) \<and> Labels parsed = None \<and>
      NewServiceFromTemplate demo_lib ((''video-id'', ''none'') # demo_labels) ''video-id''
        demo_template demo_spec = (Return (Inr service), demo_derived) \<and>
      Labels service = Some m \<and> dom m = {''video-id'', ''app'', ''tier''} \<and>
      m ''video-id'' = Some ''abc123xyz89'') \<and>
   (\<exists>parsed ingress m.
      Decode_Ingress demo_lib ''job-abababab'' = Inr (Some parsed) \<and> Labels parsed = None \<and>
      NewIngressFromTemplate demo_lib ((''video-id'', ''none'') # demo_labels) ''video-id''
        demo_template demo_spec = (Return (Inr ingress), demo_derived) \<and>
      Labels ingress = Some m \<and> dom m = {''video-id'', ''app'', ''tier''} \<and>
      m ''video-id'' = Some ''abc123xyz89'')"
proof -
  let ?dl = "(''video-id'', ''none'') # demo_labels"
  have d: "distinct (map fst ?dl)" by (simp add: demo_labels_def)
  have g: "GenTemplateSpec demo_lib ''video-id'' demo_spec = Return demo_derived"
    using demo_GenTemplateSpec [of "[]" "[]"] by (simp add: demo_spec_def demo_derived_def)
  have e: "demo_template demo_derived = Inr ''job-abababab''" by (rule demo_template_derived)
  have v: "VideoId demo_spec = ''abc123xyz89''" by (simp add: demo_spec_def)
  note inst = render_carries_labels [OF d g, of demo_template "''job-abababab''"]
  have j: "\<exists>parsed job.
      Decode_Job demo_lib ''job-abababab'' = Inr (Some parsed) \<and>
      Labels parsed = Some [''video-id'' \<mapsto> ''spoofed''] \<and>
      NewJobFromTemplate demo_lib ?dl ''video-id'' demo_template demo_spec
        = (Return (Inr job), demo_derived) \<and>
      label_value (Labels job) ''video-id'' = ''abc123xyz89'' \<and>
      label_value (Labels job) ''app'' = ''launcher'' \<and>
      label_value (Labels job) ''tier'' = ''live''"
  proof -
    from inst e demo_decode(1) obtain job where
      "NewJobFromTemplate demo_lib ?dl ''video-id'' demo_template demo_spec
         = (Return (Inr job), demo_derived)"
      "carries_labels ?dl ''video-id'' (VideoId demo_spec)
         (Some [''video-id'' \<mapsto> ''spoofed'']) (Labels job)"
      by fastforce
    then show ?thesis using demo_decode(1)
      by (auto simp add: carries_labels_def label_value_def v demo_labels_def
          split: option.splits)
  qed
  have s: "\<exists>parsed service m.
      Decode_Service demo_lib ''job-abababab'' = Inr (Some parsed) \<and> Labels parsed = None \<and>
      NewServiceFromTemplate demo_lib ?dl ''video-id'' demo_template demo_spec
        = (Return (Inr service), demo_derived) \<and>
      Labels service = Some m \<and> dom m = {''video-id'', ''app'', ''tier''} \<and>
      m ''video-id'' = Some ''abc123xyz89''"
  proof -
    from inst e demo_decode(2) obtain service where
      "NewServiceFromTemplate demo_lib ?dl ''video-id'' demo_template demo_spec
         = (Return (Inr service), demo_derived)"
      "carries_labels ?dl ''video-id'' (VideoId demo_spec) None (Labels service)"
      by fastforce
    then show ?thesis using demo_decode(2)
      by (auto simp add: carries_labels_def v demo_labels_def split: option.splits)
  qed
  have i: "\<exists>parsed ingress m.
      Decode_Ingress demo_lib ''job-abababab'' = Inr (Some parsed) \<and> Labels parsed = None \<and>
      NewIngressFromTemplate demo_lib ?dl ''video-id'' demo_template demo_spec
        = (Return (Inr ingress), demo_derived) \<and>
      Labels ingress = Some m \<and> dom m = {''video-id'', ''app'', ''tier''} \<and>
      m ''video-id'' = Some ''abc123xyz89''"
  proof -
    from inst e demo_decode(3) obtain ingress where
      "NewIngressFromTemplate demo_lib ?dl ''video-id'' demo_template demo_spec
         = (Return (Inr ingress), demo_derived)"
      "carries_labels ?dl ''video-id'' (VideoId demo_spec) None (Labels ingress)"
      by fastforce
    then show ?thesis using demo_decode(3)
      by (auto simp add: carries_labels_def v demo_labels_def split: option.splits)
  qed
  from d g e j s i show ?thesis by (intro conjI)
qed

subsection \<open>Render failures\<close>

text \<open>
  Claim C8. When the template fails to execute, or its text fails to decode, each
  constructor returns an error and no object; the error wraps the cause behind
  \<^verbatim>\<open>error executing <kind> template: \<close> or \<^verbatim>\<open>error parsing <kind> YAML: \<close>, so its message
  starts with that text.
\<close>

theorem render_errors:
  assumes gen: "GenTemplateSpec l vl spec0 = Return spec"
  shows "(\<forall>err. tmpl spec = Inl err \<longrightarrow>
            NewJobFromTemplate l dl vl tmpl spec0 =
              (Return (Inl (Errorf_w ''error executing job template: '' err)), spec) \<and>
            NewServiceFromTemplate l dl vl tmpl spec0 =
              (Return (Inl (Errorf_w ''error executing service template: '' err)), spec) \<and>
            NewIngressFromTemplate l dl vl tmpl spec0 =
              (Return (Inl (Errorf_w ''error executing ingress template: '' err)), spec)) \<and>
         (\<forall>buf err. tmpl spec = Inr buf \<and> Decode_Job l buf = Inl err \<longrightarrow>
            NewJobFromTemplate l dl vl tmpl spec0 =
              (Return (Inl (Errorf_w ''error parsing job YAML: '' err)), spec)) \<and>
         (\<forall>buf err. tmpl spec = Inr buf \<and> Decode_Service l buf = Inl err \<longrightarrow>
            NewServiceFromTemplate l dl vl tmpl spec0 =
              (Return (Inl (Errorf_w ''error parsing service YAML: '' err)), spec)) \<and>
         (\<forall>buf err. tmpl spec = Inr buf \<and> Decode_Ingress l buf = Inl err \<longrightarrow>
            NewIngressFromTemplate l dl vl tmpl spec0 =
              (Return (Inl (Errorf_w ''error parsing ingress YAML: '' err)), spec)) \<and>
         (\<forall>prefix err. Error (Errorf_w prefix err) = prefix @ Error err)"
  using gen
  by (simp add: NewJobFromTemplate_def NewServiceFromTemplate_def NewIngressFromTemplate_def)

theorem render_errors_witness:
  "GenTemplateSpec demo_lib ''video-id'' demo_spec = Return demo_derived \<and>
   demo_failing_template demo_derived =
     Inl (Errorf ''can't evaluate field Missing in type *main.TemplateSpec'') \<and>
   NewJobFromTemplate demo_lib demo_labels ''video-id'' demo_failing_template demo_spec =
     (Return (Inl (Errorf_w ''error executing job template: ''
        (Errorf ''can't evaluate field Missing in type *main.TemplateSpec''))), demo_derived) \<and>
   NewServiceFromTemplate demo_lib demo_labels ''video-id'' demo_failing_template demo_spec =
     (Return (Inl (Errorf_w ''error executing service template: ''
        (Errorf ''can't evaluate field Missing in type *main.TemplateSpec''))), demo_derived) \<and>
   NewIngressFromTemplate demo_lib demo_labels ''video-id'' demo_failing_template demo_spec =
     (Return (Inl (Errorf_w ''error executing ingress template: ''
        (Errorf ''can't evaluate field Missing in type *main.TemplateSpec''))), demo_derived) \<and>
   Error (Errorf_w ''error executing job template: ''
        (Errorf ''can't evaluate field Missing in type *main.TemplateSpec'')) =
     ''error executing job template: can't evaluate field Missing in type *main.TemplateSpec'' \<and>
   demo_bad_yaml_template demo_derived = Inr ''bad'' \<and>
   Decode_Job demo_lib ''bad'' = Inl (Errorf ''EOF'') \<and>
   Decode_Service demo_lib ''bad'' = Inl (Errorf ''EOF'') \<and>
   Decode_Ingress demo_lib ''bad'' = Inl (Errorf ''EOF'') \<and>
   NewJobFromTemplate demo_lib demo_labels ''video-id'' demo_bad_yaml_template demo_spec =
     (Return (Inl (Errorf_w ''error parsing job YAML: '' (Errorf ''EOF''))), demo_derived) \<and>
   NewServiceFromTemplate demo_lib demo_labels ''video-id'' demo_bad_yaml_template demo_spec =
     (Return (Inl (Errorf_w ''error parsing service YAML: '' (Errorf ''EOF''))), demo_derived) \<and>
   NewIngressFromTemplate demo_lib demo_labels ''video-id'' demo_bad_yaml_template demo_spec =
     (Return (Inl (Errorf_w ''error parsing ingress YAML: '' (Errorf ''EOF''))), demo_derived)"
proof -
  have g: "GenTemplateSpec demo_lib ''video-id'' demo_spec = Return demo_derived"
    using demo_GenTemplateSpec [of "[]" "[]"] by (simp add: demo_spec_def demo_derived_def)
  have f: "demo_failing_template demo_derived =
     Inl (Errorf ''can't evaluate field Missing in type *main.TemplateSpec'')"
    by (simp add: demo_failing_template_def)
  have b: "demo_bad_yaml_template demo_derived = Inr ''bad''"
    by (simp add: demo_bad_yaml_template_def)
  note exe = render_errors [OF g, of demo_failing_template demo_labels]
  note dec = render_errors [OF g, of demo_bad_yaml_template demo_labels]
  have m: "Error (Errorf_w ''error executing job template: ''
        (Errorf ''can't evaluate field Missing in type *main.TemplateSpec'')) =
     ''error executing job template: can't evaluate field Missing in type *main.TemplateSpec''"
    using exe by simp
  from exe f have e3:
    "NewJobFromTemplate demo_lib demo_labels ''video-id'' demo_failing_template demo_spec =
     (Return (Inl (Errorf_w ''error executing job template: ''
        (Errorf ''can't evaluate field Missing in type *main.TemplateSpec''))), demo_derived)"
    "NewServiceFromTemplate demo_lib demo_labels ''video-id'' demo_failing_template demo_spec =
     (Return (Inl (Errorf_w ''error executing service template: ''
        (Errorf ''can't evaluate field Missing in type *main.TemplateSpec''))), demo_derived)"
    "NewIngressFromTemplate demo_lib demo_labels ''video-id'' demo_failing_template demo_spec =
     (Return (Inl (Errorf_w ''error executing ingress template: ''
        (Errorf ''can't evaluate field Missing in type *main.TemplateSpec''))), demo_derived)"
    by blast+
  from dec b demo_decode(4-6) have d3:
    "NewJobFromTemplate demo_lib demo_labels ''video-id'' demo_bad_yaml_template demo_spec =
     (Return (Inl (Errorf_w ''error parsing job YAML: '' (Errorf ''EOF''))), demo_derived)"
    "NewServiceFromTemplate demo_lib demo_labels ''video-id'' demo_bad_yaml_template demo_spec =
     (Return (Inl (Errorf_w ''error parsing service YAML: '' (Errorf ''EOF''))), demo_derived)"
    "NewIngressFromTemplate demo_lib demo_labels ''video-id'' demo_bad_yaml_template demo_spec =
     (Return (Inl (Errorf_w ''error parsing ingress YAML: '' (Errorf ''EOF''))), demo_derived)"
    by blast+
  from g f e3 m b demo_decode(4-6) d3 show ?thesis by (intro conjI)
qed

subsection \<open>Fields other than the labels\<close>

lemma NewJobFromTemplate_frame:
  assumes "NewJobFromTemplate l dl vl tmpl spec0 = (Return (Inr job), spec)"
  shows "\<exists>buf parsed. tmpl spec = Inr buf \<and> Decode_Job l buf = Inr (Some parsed) \<and>
           job = parsed\<lparr>Labels := Labels job\<rparr>"
  using assms
  by (auto simp add: NewJobFromTemplate_def GenTemplateSpec_Return
      split: sum.splits option.splits)

lemma NewServiceFromTemplate_frame:
  assumes "NewServiceFromTemplate l dl vl tmpl spec0 = (Return (Inr service), spec)"
  shows "\<exists>buf parsed. tmpl spec = Inr buf \<and> Decode_Service l buf = Inr (Some parsed) \<and>
           service = parsed\<lparr>Labels := Labels service\<rparr>"
  using assms
  by (auto simp add: NewServiceFromTemplate_def GenTemplateSpec_Return
      split: sum.splits option.splits)

lemma NewIngressFromTemplate_frame:
  assumes "NewIngressFromTemplate l dl vl tmpl spec0 = (Return (Inr ingress), spec)"
  shows "\<exists>buf parsed. tmpl spec = Inr buf \<and> Decode_Ingress l buf = Inr (Some parsed) \<and>
           ingress = parsed\<lparr>Labels := Labels ingress\<rparr>"
  using assms
  by (auto simp add: NewIngressFromTemplate_def GenTemplateSpec_Return
      split: sum.splits option.splits)

text \<open>
  The one way a constructor ends without a result: the decoder reports no error and leaves
  the pointer nil, and the first read of the labels dereferences it.
\<close>

lemma NewJobFromTemplate_nil:
  assumes "GenTemplateSpec l vl spec0 = Return spec" "tmpl spec = Inr buf"
    "Decode_Job l buf = Inr None"
  shows "NewJobFromTemplate l dl vl tmpl spec0 =
           (Panic ''invalid memory address or nil pointer dereference'', spec)"
  using assms by (simp add: NewJobFromTemplate_def)

text \<open>
  Claim C10. An object a constructor returns is the object decoded from the text of the
  template with its label map replaced: every other field is the decoded one.
\<close>

theorem render_changes_labels_only:
  "(\<forall>job spec. NewJobFromTemplate l dl vl tmpl spec0 = (Return (Inr job), spec) \<longrightarrow>
      (\<exists>buf parsed. tmpl spec = Inr buf \<and> Decode_Job l buf = Inr (Some parsed) \<and>
         job = parsed\<lparr>Labels := Labels job\<rparr>)) \<and>
   (\<forall>service spec. NewServiceFromTemplate l dl vl tmpl spec0 = (Return (Inr service), spec) \<longrightarrow>
      (\<exists>buf parsed. tmpl spec = Inr buf \<and> Decode_Service l buf = Inr (Some parsed) \<and>
         service = parsed\<lparr>Labels := Labels service\<rparr>)) \<and>
   (\<forall>ingress spec. NewIngressFromTemplate l dl vl tmpl spec0 = (Return (Inr ingress), spec) \<longrightarrow>
      (\<exists>buf parsed. tmpl spec = Inr buf \<and> Decode_Ingress l buf = Inr (Some parsed) \<and>
         ingress = parsed\<lparr>Labels := Labels ingress\<rparr>))"
  using NewJobFromTemplate_frame [of l dl vl tmpl spec0]
    NewServiceFromTemplate_frame [of l dl vl tmpl spec0]
    NewIngressFromTemplate_frame [of l dl vl tmpl spec0]
  by blast

theorem render_changes_labels_only_witness:
  "(\<exists>job parsed.
      NewJobFromTemplate demo_lib demo_labels ''video-id'' demo_template demo_spec =
        (Return (Inr job), demo_derived) \<and>
      Decode_Job demo_lib ''job-abababab'' = Inr (Some parsed) \<and>
      job = parsed\<lparr>Labels := Labels job\<rparr> \<and>
      Name job = ''job-abababab'' \<and> Status_Succeeded job = 0 \<and> Job_fields job = ()) \<and>
   (\<exists>service parsed.
      NewServiceFromTemplate demo_lib demo_labels ''video-id'' demo_template demo_spec =
        (Return (Inr service), demo_derived) \<and>
      Decode_Service demo_lib ''job-abababab'' = Inr (Some parsed) \<and>
      service = parsed\<lparr>Labels := Labels service\<rparr> \<and> Name service = ''job-abababab'') \<and>
   (\<exists>ingress parsed.
      NewIngressFromTemplate demo_lib demo_labels ''video-id'' demo_template demo_spec =
        (Return (Inr ingress), demo_derived) \<and>
      Decode_Ingress demo_lib ''job-abababab'' = Inr (Some parsed) \<and>
      ingress = parsed\<lparr>Labels := Labels ingress\<rparr> \<and> Name ingress = ''job-abababab'')"
proof -
  note inst = render_changes_labels_only [of demo_lib demo_labels "''video-id''"
      demo_template demo_spec]
  have e: "demo_template demo_derived = Inr ''job-abababab''" by (rule demo_template_derived)
  let ?job = "\<lparr>Name = ''job-abababab'',
      Labels = add_labels demo_labels ''video-id'' demo_derived (Some [''video-id'' \<mapsto> ''spoofed'']),
      Status_Succeeded = 0, Job_fields = ()\<rparr> :: unit Job"
  let ?service = "\<lparr>Name = ''job-abababab'',
      Labels = add_labels demo_labels ''video-id'' demo_derived None,
      Service_fields = ()\<rparr> :: unit Service"
  let ?ingress = "\<lparr>Name = ''job-abababab'',
      Labels = add_labels demo_labels ''video-id'' demo_derived None,
      Ingress_fields = ()\<rparr> :: unit Ingress"
  have rj: "NewJobFromTemplate demo_lib demo_labels ''video-id'' demo_template demo_spec =
      (Return (Inr ?job), demo_derived)"
    using demo_NewJob [of demo_labels "[]" "[]"] by (simp add: demo_spec_def)
  have rs: "NewServiceFromTemplate demo_lib demo_labels ''video-id'' demo_template demo_spec =
      (Return (Inr ?service), demo_derived)"
    using demo_NewService [of demo_labels "[]" "[]"] by (simp add: demo_spec_def)
  have ri: "NewIngressFromTemplate demo_lib demo_labels ''video-id'' demo_template demo_spec =
      (Return (Inr ?ingress), demo_derived)"
    using demo_NewIngress [of demo_labels "[]" "[]"] by (simp add: demo_spec_def)
  from inst rj e obtain pj where
    pj: "Decode_Job demo_lib ''job-abababab'' = Inr (Some pj)" "?job = pj\<lparr>Labels := Labels ?job\<rparr>"
    by fastforce
  from inst rs e obtain ps where
    ps: "Decode_Service demo_lib ''job-abababab'' = Inr (Some ps)"
      "?service = ps\<lparr>Labels := Labels ?service\<rparr>"
    by fastforce
  from inst ri e obtain pi where
    pi: "Decode_Ingress demo_lib ''job-abababab'' = Inr (Some pi)"
      "?ingress = pi\<lparr>Labels := Labels ?ingress\<rparr>"
    by fastforce
  have j: "\<exists>job parsed.
      NewJobFromTemplate demo_lib demo_labels ''video-id'' demo_template demo_spec =
        (Return (Inr job), demo_derived) \<and>
      Decode_Job demo_lib ''job-abababab'' = Inr (Some parsed) \<and>
      job = parsed\<lparr>Labels := Labels job\<rparr> \<and>
      Name job = ''job-abababab'' \<and> Status_Succeeded job = 0 \<and> Job_fields job = ()"
  proof -
    have "Name ?job = ''job-abababab''" "Status_Succeeded ?job = 0" "Job_fields ?job = ()"
      by simp_all
    with rj pj show ?thesis by blast
  qed
  have s: "\<exists>service parsed.
      NewServiceFromTemplate demo_lib demo_labels ''video-id'' demo_template demo_spec =
        (Return (Inr service), demo_derived) \<and>
      Decode_Service demo_lib ''job-abababab'' = Inr (Some parsed) \<and>
      service = parsed\<lparr>Labels := Labels service\<rparr> \<and> Name service = ''job-abababab''"
  proof -
    have "Name ?service = ''job-abababab''" by simp
    with rs ps show ?thesis by blast
  qed
  have i: "\<exists>ingress parsed.
      NewIngressFromTemplate demo_lib demo_labels ''video-id'' demo_template demo_spec =
        (Return (Inr ingress), demo_derived) \<and>
      Decode_Ingress demo_lib ''job-abababab'' = Inr (Some parsed) \<and>
      ingress = parsed\<lparr>Labels := Labels ingress\<rparr> \<and> Name ingress = ''job-abababab''"
  proof -
    have "Name ?ingress = ''job-abababab''" by simp
    with ri pi show ?thesis by blast
  qed
  from j s i show ?thesis by (intro conjI)
qed

subsection \<open>The watch selector\<close>

lemma fold_selector:
  "fold (\<lambda>(k, v) sel. sel @ k @ ''='' @ v @ '','') dl acc =
     acc @ concat (map (\<lambda>(k, v). k @ ''='' @ v @ '','') dl)"
  by (induction dl arbitrary: acc) (auto)

lemma butlast_concat_Join:
  "dl \<noteq> [] \<Longrightarrow>
   butlast (concat (map (\<lambda>(k, v). k @ ''='' @ v @ '','') dl)) =
     strings_Join (map (\<lambda>(k, v). k @ ''='' @ v) dl) '',''"
proof (induction dl)
  case Nil
  then show ?case by simp
next
  case (Cons kv dl)
  obtain k v where kv: "kv = (k, v)" by (cases kv)
  show ?case
  proof (cases dl)
    case Nil
    then show ?thesis by (simp add: kv butlast_append)
  next
    case (Cons kv' dl')
    then have ne: "concat (map (\<lambda>(k, v). k @ ''='' @ v @ '','') dl) \<noteq> []"
      by (auto split: prod.splits)
    have "butlast (concat (map (\<lambda>(k, v). k @ ''='' @ v @ '','') (kv # dl))) =
          k @ ''='' @ v @ '','' @ butlast (concat (map (\<lambda>(k, v). k @ ''='' @ v @ '','') dl))"
      using ne by (simp add: kv butlast_append)
    also have "\<dots> = k @ ''='' @ v @ '','' @ strings_Join (map (\<lambda>(k, v). k @ ''='' @ v) dl) '',''"
      using Cons.IH Cons by simp
    also have "\<dots> = strings_Join (map (\<lambda>(k, v). k @ ''='' @ v) (kv # dl)) '',''"
      using Cons by (simp add: kv)
    finally show ?thesis .
  qed
qed

lemma build_labelSelector_eq:
  "build_labelSelector dl =
     (if dl = [] then Panic ''slice bounds out of range''
      else Return (strings_Join (map (\<lambda>(k, v). k @ ''='' @ v) dl) '',''))"
proof (cases dl)
  case Nil
  then show ?thesis by (simp add: build_labelSelector_def slice_to_def)
next
  case (Cons kv dl')
  let ?s = "concat (map (\<lambda>(k, v). k @ ''='' @ v @ '','') dl)"
  have pos: "0 < length ?s" using Cons by (auto split: prod.splits)
  have "build_labelSelector dl = slice_to ?s (int (length ?s) - 1)"
    using fold_selector [of dl "[]"] by (simp add: build_labelSelector_def Let_def)
  also have "\<dots> = Return (take (length ?s - 1) ?s)"
    using pos by (simp add: slice_to_def nat_diff_distrib')
  also have "take (length ?s - 1) ?s = butlast ?s" by (simp add: butlast_conv_take)
  also have "butlast ?s = strings_Join (map (\<lambda>(k, v). k @ ''='' @ v) dl) '',''"
    using Cons by (intro butlast_concat_Join) simp
  finally show ?thesis using Cons by simp
qed

text \<open>
  Claim C9. The slice that cuts the trailing comma is in range exactly when there is at
  least one default label. Then the selector is the \<^verbatim>\<open>key=value\<close> pairs joined by commas,
  with no trailing separator; with no default label the slice panics, and so does
  \<^verbatim>\<open>CleanupWatcher\<close>, before it issues any call.
\<close>

theorem labelSelector_in_bounds_iff:
  "((\<exists>sel. build_labelSelector dl = Return sel) = (dl \<noteq> [])) \<and>
   ((\<exists>p. build_labelSelector dl = Panic p) = (dl = [])) \<and>
   build_labelSelector dl =
     (if dl = [] then Panic ''slice bounds out of range''
      else Return (strings_Join (map (\<lambda>(k, v). k @ ''='' @ v) dl) '','')) \<and>
   CleanupWatcher s [] vl w = Some (Panic ''slice bounds out of range'', w)"
  by (simp add: build_labelSelector_eq CleanupWatcher_def)

lemma demo_selector: "build_labelSelector demo_labels = Return ''app=launcher,tier=live''"
  by (simp add: build_labelSelector_eq demo_labels_def)

theorem labelSelector_in_bounds_iff_witness:
  "build_labelSelector demo_labels = Return ''app=launcher,tier=live'' \<and>
   build_labelSelector [] = Panic ''slice bounds out of range'' \<and>
   CleanupWatcher demo_service [] ''video-id'' demo_world =
     Some (Panic ''slice bounds out of range'', demo_world)"
  using labelSelector_in_bounds_iff [of demo_labels demo_service "''video-id''" demo_world]
    labelSelector_in_bounds_iff [of "[]" demo_service "''video-id''" demo_world]
  by (simp add: demo_labels_def)

subsection \<open>Launch with an empty identifier\<close>

text \<open>
  Claim C6. \<^verbatim>\<open>Launch\<close> with the empty video id returns the error
  \<^verbatim>\<open>video ID cannot be empty\<close> and leaves the calls and the log as they were, whatever the
  templates, the decoders and the clients are.
\<close>

theorem Launch_empty_identifier:
  "Launch s l dl vl [] w = (Return (Some (Errorf ''video ID cannot be empty'')), w) \<and>
   calls (snd (Launch s l dl vl [] w)) = calls w \<and>
   Error (Errorf ''video ID cannot be empty'') = ''video ID cannot be empty''"
  by (simp add: Launch_def)

theorem Launch_empty_identifier_witness:
  "Launch demo_service demo_lib demo_labels ''video-id'' [] demo_world =
     (Return (Some (Errorf ''video ID cannot be empty'')), \<lparr>calls = [], logs = []\<rparr>)"
  using Launch_empty_identifier [of demo_service demo_lib demo_labels "''video-id''" demo_world]
  by (simp add: demo_world_def)

subsection \<open>The cleanup loop\<close>

lemma calls_issue [simp]: "calls (issue c w) = calls w @ [c]"
  by (simp add: issue_def)

lemma logs_issue [simp]: "logs (issue c w) = logs w"
  by (simp add: issue_def)

lemma calls_log_Printf [simp]: "calls (log_Printf line w) = calls w"
  by (simp add: log_Printf_def)

lemma logs_log_Printf [simp]: "logs (log_Printf line w) = logs w @ [line]"
  by (simp add: log_Printf_def)

lemma calls_delete_services:
  "calls (delete_services s items w) =
     calls w @ map (\<lambda>svc. Call_ServiceDelete (Name svc)) items"
  unfolding delete_services_def
  by (induction items arbitrary: w) (simp_all split: option.splits)

lemma calls_delete_ingresses:
  "calls (delete_ingresses s items w) =
     calls w @ map (\<lambda>ing. Call_IngressDelete (Name ing)) items"
  unfolding delete_ingresses_def
  by (induction items arbitrary: w) (simp_all split: option.splits)

lemma calls_cleanup_services:
  "calls (cleanup_services s sel w) =
     calls w @ Call_ServiceList sel #
       map Call_ServiceDelete
         (case ServiceClient_List s (calls w) sel of Inl err \<Rightarrow> [] | Inr items \<Rightarrow> map Name items)"
  by (simp add: cleanup_services_def calls_delete_services comp_def split: sum.splits)

lemma calls_cleanup_ingresses:
  "calls (cleanup_ingresses s sel w) =
     calls w @ Call_IngressList sel #
       map Call_IngressDelete
         (case IngressClient_List s (calls w) sel of Inl err \<Rightarrow> [] | Inr items \<Rightarrow> map Name items)"
  by (simp add: cleanup_ingresses_def calls_delete_ingresses comp_def split: sum.splits)

lemma watch_loop_closed:
  assumes "\<forall>k < length evs. ch (i + k) = Some (evs ! k)" and "ch (i + length evs) = None"
  shows "watch_loop s sel vl ch i w = Some (fold (watch_body s sel vl) evs w)"
  using assms
proof (induction evs arbitrary: i w)
  case Nil
  then show ?case by (subst watch_loop.simps) simp
next
  case (Cons ev evs)
  have hd: "ch i = Some ev" using Cons.prems(1) by force
  have tl: "\<forall>k < length evs. ch (Suc i + k) = Some (evs ! k)"
    using Cons.prems(1) by force
  have cl: "ch (Suc i + length evs) = None" using Cons.prems(2) by simp
  have "watch_loop s sel vl ch i w = watch_loop s sel vl ch (Suc i) (watch_body s sel vl ev w)"
    by (subst watch_loop.simps) (simp add: hd)
  also have "\<dots> = Some (fold (watch_body s sel vl) evs (watch_body s sel vl ev w))"
    using tl cl by (rule Cons.IH)
  finally show ?case by simp
qed

lemma watch_loop_Some_closed:
  assumes "watch_loop s sel vl ch i w = Some w'"
  shows "\<exists>n. ch (i + n) = None"
  using assms
proof (induction rule: watch_loop.raw_induct [rotated 1, consumes 1])
  case (1 loop s sel vl ch i w w')
  show ?case
  proof (cases "ch i")
    case None
    then have "ch (i + 0) = None" by simp
    then show ?thesis by blast
  next
    case (Some ev)
    with 1(2) have "loop s sel vl ch (Suc i) (watch_body s sel vl ev w) = Some w'" by simp
    then obtain n where "ch (Suc i + n) = None" using 1(1) by blast
    then have "ch (i + Suc n) = None" by simp
    then show ?thesis by blast
  qed
qed

lemma watch_loop_never_closed:
  assumes "\<forall>k. ch k \<noteq> None"
  shows "watch_loop s sel vl ch i w = None"
proof (cases "watch_loop s sel vl ch i w")
  case None
  then show ?thesis .
next
  case (Some w')
  then obtain n where "ch (i + n) = None" using watch_loop_Some_closed by blast
  with assms show ?thesis by blast
qed

lemma demo_body_other:
  "watch_body demo_service sel ''video-id'' demo_event_status demo_world =
     \<lparr>calls = [], logs = [''CleanupWatcher got unexpected object type: *v1.Status'']\<rparr>"
  by (simp add: watch_body_def demo_event_status_def demo_world_def log_Printf_def)

lemma demo_body_running:
  "watch_body demo_service sel ''video-id'' demo_event_running w = w"
  by (simp add: watch_body_def demo_event_running_def demo_running_job_def)

lemma demo_body_succeeded:
  "watch_body demo_service ''app=launcher,tier=live'' ''video-id'' demo_event_succeeded w =
     \<lparr>calls = calls w @
        [Call_ServiceList ''app=launcher,tier=live,video-id=abc123xyz89'',
         Call_ServiceDelete ''svc-a'', Call_ServiceDelete ''svc-b'',
         Call_IngressList ''app=launcher,tier=live,video-id=abc123xyz89''],
      logs = logs w @
        [''job job-abababab has completed, deleting associated service and ingress'',
         ''error deleting service: services svc-a not found'',
         ''error listing ingress: ingresses is forbidden'']\<rparr>"
  by (simp add: watch_body_def demo_event_succeeded_def demo_running_job_def demo_succeeded_job_def
      label_value_def cleanup_services_def cleanup_ingresses_def delete_services_def
      delete_ingresses_def demo_service_def issue_def log_Printf_def Let_def)

lemma demo_events_simps:
  "demo_events 0 = Some demo_event_status"
  "demo_events (Suc 0) = Some demo_event_running"
  "demo_events (Suc (Suc 0)) = Some demo_event_succeeded"
  "demo_events (Suc (Suc (Suc 0))) = None"
  by (simp_all add: demo_events_def)

lemma demo_events_delivered:
  "(\<forall>k < length [demo_event_status, demo_event_running, demo_event_succeeded].
      demo_events (0 + k) = Some ([demo_event_status, demo_event_running, demo_event_succeeded] ! k)) \<and>
   demo_events (length [demo_event_status, demo_event_running, demo_event_succeeded]) = None"
  by (simp add: demo_events_def)

lemma demo_loop_world:
  "fold (watch_body demo_service ''app=launcher,tier=live'' ''video-id'')
     [demo_event_status, demo_event_running, demo_event_succeeded] demo_world =
   \<lparr>calls =
      [Call_ServiceList ''app=launcher,tier=live,video-id=abc123xyz89'',
       Call_ServiceDelete ''svc-a'', Call_ServiceDelete ''svc-b'',
       Call_IngressList ''app=launcher,tier=live,video-id=abc123xyz89''],
    logs =
      [''CleanupWatcher got unexpected object type: *v1.Status'',
       ''job job-abababab has completed, deleting associated service and ingress'',
       ''error deleting service: services svc-a not found'',
       ''error listing ingress: ingresses is forbidden'']\<rparr>"
  by (simp add: demo_body_other demo_body_running demo_body_succeeded)

text \<open>
  Claim C2. For one event of the loop, under the selector built from the default labels:
  an object that is not a job only adds a log line; the loop goes on with the next event;
  a job with a succeeded count of zero changes nothing; a job with a positive succeeded
  count makes the loop list the services under the selector extended by the job's own
  video-id label, delete every listed service by name, then list the ingresses under the
  same selector and delete every listed ingress by name, and issue no other call.
\<close>

theorem watch_body_per_event:
  assumes sel: "build_labelSelector dl = Return sel"
  shows
   "(\<forall>tname. Object ev = OtherObject tname \<longrightarrow>
       watch_body s sel vl ev w =
         log_Printf (''CleanupWatcher got unexpected object type: '' @ tname) w \<and>
       calls (watch_body s sel vl ev w) = calls w) \<and>
    (\<forall>ch i. ch i = Some ev \<longrightarrow>
       watch_loop s sel vl ch i w = watch_loop s sel vl ch (Suc i) (watch_body s sel vl ev w)) \<and>
    (\<forall>job. Object ev = JobObject job \<and> Status_Succeeded job = 0 \<longrightarrow>
       watch_body s sel vl ev w = w) \<and>
    (\<forall>job. Object ev = JobObject job \<and> 0 < sint (Status_Succeeded job) \<longrightarrow>
       (let vsel = strings_Join (map (\<lambda>(k, v). k @ ''='' @ v) dl) '','' @
                     '','' @ vl @ ''='' @ label_value (Labels job) vl;
            svcs = (case ServiceClient_List s (calls w) vsel of
                      Inl err \<Rightarrow> [] | Inr items \<Rightarrow> map Name items);
            cs = calls w @ Call_ServiceList vsel # map Call_ServiceDelete svcs;
            ings = (case IngressClient_List s cs vsel of
                      Inl err \<Rightarrow> [] | Inr items \<Rightarrow> map Name items)
        in calls (watch_body s sel vl ev w) =
             cs @ Call_IngressList vsel # map Call_IngressDelete ings))"
proof -
  have seleq: "sel = strings_Join (map (\<lambda>(k, v). k @ ''='' @ v) dl) '',''"
    using sel by (simp add: build_labelSelector_eq split: if_splits)
  have other: "\<forall>tname. Object ev = OtherObject tname \<longrightarrow>
       watch_body s sel vl ev w =
         log_Printf (''CleanupWatcher got unexpected object type: '' @ tname) w \<and>
       calls (watch_body s sel vl ev w) = calls w"
    by (simp add: watch_body_def)
  have loop: "\<forall>ch i. ch i = Some ev \<longrightarrow>
       watch_loop s sel vl ch i w = watch_loop s sel vl ch (Suc i) (watch_body s sel vl ev w)"
  proof (intro allI impI)
    fix ch :: "nat \<Rightarrow> 'a Event option" and i
    assume "ch i = Some ev"
    then show "watch_loop s sel vl ch i w =
                 watch_loop s sel vl ch (Suc i) (watch_body s sel vl ev w)"
      by (subst watch_loop.simps) simp
  qed
  have zero: "\<forall>job. Object ev = JobObject job \<and> Status_Succeeded job = 0 \<longrightarrow>
       watch_body s sel vl ev w = w"
    by (simp add: watch_body_def)
  have succ: "\<forall>job. Object ev = JobObject job \<and> 0 < sint (Status_Succeeded job) \<longrightarrow>
       (let vsel = strings_Join (map (\<lambda>(k, v). k @ ''='' @ v) dl) '','' @
                     '','' @ vl @ ''='' @ label_value (Labels job) vl;
            svcs = (case ServiceClient_List s (calls w) vsel of
                      Inl err \<Rightarrow> [] | Inr items \<Rightarrow> map Name items);
            cs = calls w @ Call_ServiceList vsel # map Call_ServiceDelete svcs;
            ings = (case IngressClient_List s cs vsel of
                      Inl err \<Rightarrow> [] | Inr items \<Rightarrow> map Name items)
        in calls (watch_body s sel vl ev w) =
             cs @ Call_IngressList vsel # map Call_IngressDelete ings)"
    by (simp add: watch_body_def Let_def calls_cleanup_ingresses calls_cleanup_services seleq)
  from other loop zero succ show ?thesis by (intro conjI)
qed

theorem watch_body_per_event_witness:
  "build_labelSelector demo_labels = Return ''app=launcher,tier=live'' \<and>
   watch_body demo_service ''app=launcher,tier=live'' ''video-id''
       demo_event_status demo_world =
     log_Printf ''CleanupWatcher got unexpected object type: *v1.Status'' demo_world \<and>
   watch_loop demo_service ''app=launcher,tier=live'' ''video-id'' demo_events 0 demo_world =
     watch_loop demo_service ''app=launcher,tier=live'' ''video-id'' demo_events (Suc 0)
       (log_Printf ''CleanupWatcher got unexpected object type: *v1.Status'' demo_world) \<and>
   Status_Succeeded demo_running_job = 0 \<and>
   watch_body demo_service ''app=launcher,tier=live'' ''video-id''
       demo_event_running demo_world =
     demo_world \<and>
   0 < sint (Status_Succeeded demo_succeeded_job) \<and>
   calls (watch_body demo_service ''app=launcher,tier=live'' ''video-id''
       demo_event_succeeded demo_world) =
     [Call_ServiceList ''app=launcher,tier=live,video-id=abc123xyz89'',
      Call_ServiceDelete ''svc-a'', Call_ServiceDelete ''svc-b'',
      Call_IngressList ''app=launcher,tier=live,video-id=abc123xyz89'']"
proof -
  let ?sel = "''app=launcher,tier=live''"
  let ?e0 = "demo_event_status"
  let ?e1 = "demo_event_running"
  let ?e2 = "demo_event_succeeded"
  have sel: "build_labelSelector demo_labels = Return ?sel" by (rule demo_selector)
  have s0: "Status_Succeeded demo_running_job = 0" by (simp add: demo_running_job_def)
  have s1: "0 < sint (Status_Succeeded demo_succeeded_job)"
    by (simp add: demo_succeeded_job_def)
  note t0 = watch_body_per_event [OF sel, of ?e0 demo_service "''video-id''" demo_world]
  note t1 = watch_body_per_event [OF sel, of ?e1 demo_service "''video-id''" demo_world]
  note t2 = watch_body_per_event [OF sel, of ?e2 demo_service "''video-id''" demo_world]
  have a: "watch_body demo_service ?sel ''video-id'' ?e0 demo_world =
             log_Printf ''CleanupWatcher got unexpected object type: *v1.Status'' demo_world"
    using t0 by (simp add: demo_event_status_def)
  have b: "watch_loop demo_service ?sel ''video-id'' demo_events 0 demo_world =
             watch_loop demo_service ?sel ''video-id'' demo_events (Suc 0)
               (watch_body demo_service ?sel ''video-id'' ?e0 demo_world)"
    using t0 demo_events_simps(1) by blast
  have c: "watch_body demo_service ?sel ''video-id'' ?e1 demo_world = demo_world"
    using t1 s0 by (simp add: demo_event_running_def)
  have d: "calls (watch_body demo_service ?sel ''video-id'' ?e2 demo_world) =
     [Call_ServiceList ''app=launcher,tier=live,video-id=abc123xyz89'',
      Call_ServiceDelete ''svc-a'', Call_ServiceDelete ''svc-b'',
      Call_IngressList ''app=launcher,tier=live,video-id=abc123xyz89'']"
    using t2 s1
    by (simp add: Let_def demo_labels_def demo_succeeded_job_def demo_running_job_def
        label_value_def demo_service_def demo_world_def demo_event_succeeded_def)
  from sel a b c d s0 s1 show ?thesis by simp
qed

lemma CleanupWatcher_error:
  assumes "CleanupWatcher s dl vl w = Some (Return (Some err), w')"
  shows "\<exists>sel e. build_labelSelector dl = Return sel \<and>
           JobClient_Watch s (calls w) sel = Inl e \<and> err = Errorf_w ''error watching jobs: '' e"
  using assms
  by (auto simp add: CleanupWatcher_def split: go.splits sum.splits option.splits)

text \<open>
  Claim C5. Whatever the clients answer: on a channel that delivers the events \<open>evs\<close> and
  is then closed the loop handles every one of them and returns; on a channel that is never
  closed it does not return; the only error \<^verbatim>\<open>CleanupWatcher\<close> returns is that of the watch
  call itself. Within one event both cleanup phases always run, a failed list call or
  delete call adds one log line and nothing else, and every listed object gets its delete
  call whatever the earlier delete calls answered.
\<close>

theorem cleanup_failures_never_end_loop:
  "((\<forall>k < length evs. ch k = Some (evs ! k)) \<and> ch (length evs) = None \<longrightarrow>
      watch_loop s sel vl ch 0 w = Some (fold (watch_body s sel vl) evs w)) \<and>
   ((\<forall>k. ch k \<noteq> None) \<longrightarrow> watch_loop s sel vl ch 0 w = None) \<and>
   (\<forall>err w'. CleanupWatcher s dl vl w = Some (Return (Some err), w') \<longrightarrow>
      (\<exists>sel e. build_labelSelector dl = Return sel \<and>
         JobClient_Watch s (calls w) sel = Inl e \<and> err = Errorf_w ''error watching jobs: '' e)) \<and>
   (\<forall>job. Object ev = JobObject job \<and> 0 < sint (Status_Succeeded job) \<longrightarrow>
      (\<exists>vsel line. watch_body s sel vl ev w =
         cleanup_ingresses s vsel (cleanup_services s vsel (log_Printf line w)))) \<and>
   (\<forall>err. ServiceClient_List s (calls w) vsel = Inl err \<longrightarrow>
      cleanup_services s vsel w =
        log_Printf (''error listing services: '' @ Error err) (issue (Call_ServiceList vsel) w)) \<and>
   (\<forall>err. IngressClient_List s (calls w) vsel = Inl err \<longrightarrow>
      cleanup_ingresses s vsel w =
        log_Printf (''error listing ingress: '' @ Error err) (issue (Call_IngressList vsel) w)) \<and>
   (\<forall>err. ServiceClient_Delete s (calls w) (Name svc) = Some err \<longrightarrow>
      delete_services s (svc # svcs) w =
        delete_services s svcs
          (log_Printf (''error deleting service: '' @ Error err)
             (issue (Call_ServiceDelete (Name svc)) w))) \<and>
   (\<forall>err. IngressClient_Delete s (calls w) (Name ing) = Some err \<longrightarrow>
      delete_ingresses s (ing # ings) w =
        delete_ingresses s ings
          (log_Printf (''error deleting ingress: '' @ Error err)
             (issue (Call_IngressDelete (Name ing)) w))) \<and>
   calls (delete_services s svcs w) =
     calls w @ map (\<lambda>svc. Call_ServiceDelete (Name svc)) svcs \<and>
   calls (delete_ingresses s ings w) =
     calls w @ map (\<lambda>ing. Call_IngressDelete (Name ing)) ings"
proof -
  have closed: "(\<forall>k < length evs. ch k = Some (evs ! k)) \<and> ch (length evs) = None \<longrightarrow>
      watch_loop s sel vl ch 0 w = Some (fold (watch_body s sel vl) evs w)"
    using watch_loop_closed [of evs ch 0 s sel vl w] by simp
  have never: "(\<forall>k. ch k \<noteq> None) \<longrightarrow> watch_loop s sel vl ch 0 w = None"
    using watch_loop_never_closed [of ch s sel vl 0 w] by blast
  have werr: "\<forall>err w'. CleanupWatcher s dl vl w = Some (Return (Some err), w') \<longrightarrow>
      (\<exists>sel e. build_labelSelector dl = Return sel \<and>
         JobClient_Watch s (calls w) sel = Inl e \<and> err = Errorf_w ''error watching jobs: '' e)"
    using CleanupWatcher_error [of s dl vl w] by blast
  have both: "\<forall>job. Object ev = JobObject job \<and> 0 < sint (Status_Succeeded job) \<longrightarrow>
      (\<exists>vsel line. watch_body s sel vl ev w =
         cleanup_ingresses s vsel (cleanup_services s vsel (log_Printf line w)))"
    by (auto simp add: watch_body_def Let_def)
  have sl: "\<forall>err. ServiceClient_List s (calls w) vsel = Inl err \<longrightarrow>
      cleanup_services s vsel w =
        log_Printf (''error listing services: '' @ Error err) (issue (Call_ServiceList vsel) w)"
    by (simp add: cleanup_services_def)
  have il: "\<forall>err. IngressClient_List s (calls w) vsel = Inl err \<longrightarrow>
      cleanup_ingresses s vsel w =
        log_Printf (''error listing ingress: '' @ Error err) (issue (Call_IngressList vsel) w)"
    by (simp add: cleanup_ingresses_def)
  have sd: "\<forall>err. ServiceClient_Delete s (calls w) (Name svc) = Some err \<longrightarrow>
      delete_services s (svc # svcs) w =
        delete_services s svcs
          (log_Printf (''error deleting service: '' @ Error err)
             (issue (Call_ServiceDelete (Name svc)) w))"
    by (simp add: delete_services_def)
  have idl: "\<forall>err. IngressClient_Delete s (calls w) (Name ing) = Some err \<longrightarrow>
      delete_ingresses s (ing # ings) w =
        delete_ingresses s ings
          (log_Printf (''error deleting ingress: '' @ Error err)
             (issue (Call_IngressDelete (Name ing)) w))"
    by (simp add: delete_ingresses_def)
  from closed never werr both sl il sd idl calls_delete_services [of s svcs w]
    calls_delete_ingresses [of s ings w]
  show ?thesis by (intro conjI)
qed

theorem cleanup_failures_never_end_loop_witness:
  "demo_events 0 = Some demo_event_status \<and>
   demo_events (Suc 0) = Some demo_event_running \<and>
   demo_events (Suc (Suc 0)) = Some demo_event_succeeded \<and>
   demo_events (Suc (Suc (Suc 0))) = None \<and>
   ServiceClient_Delete demo_service [] ''svc-a'' = Some (Errorf ''services svc-a not found'') \<and>
   IngressClient_List demo_service [] ''app=launcher,tier=live,video-id=abc123xyz89'' =
     Inl (Errorf ''ingresses is forbidden'') \<and>
   watch_loop demo_service ''app=launcher,tier=live'' ''video-id'' demo_events 0 demo_world =
     Some \<lparr>calls =
             [Call_ServiceList ''app=launcher,tier=live,video-id=abc123xyz89'',
              Call_ServiceDelete ''svc-a'', Call_ServiceDelete ''svc-b'',
              Call_IngressList ''app=launcher,tier=live,video-id=abc123xyz89''],
           logs =
             [''CleanupWatcher got unexpected object type: *v1.Status'',
              ''job job-abababab has completed, deleting associated service and ingress'',
              ''error deleting service: services svc-a not found'',
              ''error listing ingress: ingresses is forbidden'']\<rparr> \<and>
   watch_loop demo_service ''app=launcher,tier=live'' ''video-id''
     (\<lambda>i. Some demo_event_succeeded) 0 demo_world = None"
proof -
  let ?evs = "[demo_event_status, demo_event_running, demo_event_succeeded]"
  have pre: "(\<forall>k < length ?evs. demo_events k = Some (?evs ! k)) \<and>
      demo_events (length ?evs) = None"
    using demo_events_delivered by simp
  have open_ch: "\<forall>k. (\<lambda>i. Some demo_event_succeeded) k \<noteq> None" by simp
  have del: "ServiceClient_Delete demo_service [] ''svc-a'' =
      Some (Errorf ''services svc-a not found'')"
    by (simp add: demo_service_def)
  have lst: "IngressClient_List demo_service [] ''app=launcher,tier=live,video-id=abc123xyz89'' =
     Inl (Errorf ''ingresses is forbidden'')"
    by (simp add: demo_service_def)
  have "watch_loop demo_service ''app=launcher,tier=live'' ''video-id'' demo_events 0 demo_world =
          Some (fold (watch_body demo_service ''app=launcher,tier=live'' ''video-id'') ?evs demo_world)"
    using cleanup_failures_never_end_loop [where evs = ?evs and ch = demo_events
        and s = demo_service and sel = "''app=launcher,tier=live''" and vl = "''video-id''"
        and w = demo_world] pre
    by blast
  then have closed: "watch_loop demo_service ''app=launcher,tier=live'' ''video-id'' demo_events 0
      demo_world =
     Some \<lparr>calls =
             [Call_ServiceList ''app=launcher,tier=live,video-id=abc123xyz89'',
              Call_ServiceDelete ''svc-a'', Call_ServiceDelete ''svc-b'',
              Call_IngressList ''app=launcher,tier=live,video-id=abc123xyz89''],
           logs =
             [''CleanupWatcher got unexpected object type: *v1.Status'',
              ''job job-abababab has completed, deleting associated service and ingress'',
              ''error deleting service: services svc-a not found'',
              ''error listing ingress: ingresses is forbidden'']\<rparr>"
    by (simp only: demo_loop_world)
  have never: "watch_loop demo_service ''app=launcher,tier=live'' ''video-id''
      (\<lambda>i. Some demo_event_succeeded) 0 demo_world = None"
    using cleanup_failures_never_end_loop [where ch = "\<lambda>i. Some demo_event_succeeded"
        and s = demo_service and sel = "''app=launcher,tier=live''" and vl = "''video-id''"
        and w = demo_world] open_ch
    by blast
  from demo_events_simps del lst closed never show ?thesis by (intro conjI)
qed

subsection \<open>The end of the watcher\<close>

lemma main_watcher_fatal_only_on_watch_error:
  "main_watcher s dl vl w = Some (Fatalf m) \<Longrightarrow>
     \<exists>sel e. build_labelSelector dl = Return sel \<and> JobClient_Watch s (calls w) sel = Inl e"
  by (auto simp add: main_watcher_def CleanupWatcher_def
      split: option.splits go.splits sum.splits prod.splits)

lemma main_watcher_stream_closed:
  assumes "build_labelSelector dl = Return sel" "JobClient_Watch s (calls w) sel = Inr ch"
    "\<forall>k < length evs. ch k = Some (evs ! k)" "ch (length evs) = None"
  shows "main_watcher s dl vl w =
           Some (Serving (fold (watch_body s sel vl) evs (issue (Call_JobWatch sel) w)))"
proof -
  have "watch_loop s sel vl ch 0 (issue (Call_JobWatch sel) w) =
          Some (fold (watch_body s sel vl) evs (issue (Call_JobWatch sel) w))"
    using watch_loop_closed [of evs ch 0 s sel vl] assms(3,4) by simp
  then show ?thesis using assms(1,2) by (simp add: main_watcher_def CleanupWatcher_def)
qed

text \<open>
  Claim C4. The loop ends only on a closed channel, and \<^verbatim>\<open>main\<close> exits only when the
  watch call itself failed. A channel that is closed makes \<^verbatim>\<open>CleanupWatcher\<close> return nil,
  on which the goroutine of \<^verbatim>\<open>main\<close> does nothing: evaluated on a watch whose channel is
  closed at once, the process goes on serving with no watcher left.
\<close>

theorem main_watcher_closed_stream_keeps_serving:
  "main_watcher demo_closed_watch demo_labels ''video-id'' demo_world =
     Some (Serving \<lparr>calls = [Call_JobWatch ''app=launcher,tier=live''], logs = []\<rparr>)"
proof -
  have "watch_loop demo_closed_watch ''app=launcher,tier=live'' ''video-id'' (\<lambda>i. None) 0
          (issue (Call_JobWatch ''app=launcher,tier=live'') demo_world) =
        Some (issue (Call_JobWatch ''app=launcher,tier=live'') demo_world)"
    by (subst watch_loop.simps) simp
  then show ?thesis
    by (simp add: main_watcher_def CleanupWatcher_def demo_selector demo_closed_watch_def
        demo_service_def issue_def demo_world_def)
qed

subsection \<open>Launch with an identifier\<close>













end
